theory Spec2Isabelle
  imports Complex_Main
begin

section \<open>Array primitives used by the longitude helpers\<close>

text \<open>
  The helpers of \<^verbatim>\<open>notebooks/inundation/utilities.py\<close> work on numpy arrays of
  floats. An array is modelled by its elements in row-major order (what
  \<^verbatim>\<open>ravel\<close> returns); floats are modelled as reals, so rounding, NaN and the
  infinities are outside the model of a coordinate.

  \<^verbatim>\<open>a % m\<close> on floats is the floored remainder, whose sign follows the divisor.
\<close>

definition pymod :: "real \<Rightarrow> real \<Rightarrow> real" where
  "pymod x m = x - m * of_int \<lfloor>x / m\<rfloor>"

text \<open>\<^verbatim>\<open>a[mask]\<close>: the elements of \<open>a\<close> where the boolean mask holds, in order.\<close>

fun select_mask :: "'a list \<Rightarrow> bool list \<Rightarrow> 'a list" where
  "select_mask (x # xs) (m # ms) = (if m then x # select_mask xs ms else select_mask xs ms)"
| "select_mask _ _ = []"

text \<open>\<^verbatim>\<open>a[mask] = c\<close> for a scalar \<open>c\<close>.\<close>

fun fill_mask :: "'a list \<Rightarrow> bool list \<Rightarrow> 'a \<Rightarrow> 'a list" where
  "fill_mask (x # xs) (m # ms) c = (if m then c else x) # fill_mask xs ms c"
| "fill_mask xs _ _ = xs"

text \<open>\<^verbatim>\<open>a[mask] = vs\<close> for an array \<open>vs\<close> with one value per selected element.\<close>

fun put_mask :: "'a list \<Rightarrow> bool list \<Rightarrow> 'a list \<Rightarrow> 'a list" where
  "put_mask (x # xs) (True # ms) (v # vs) = v # put_mask xs ms vs"
| "put_mask (x # xs) (False # ms) vs = x # put_mask xs ms vs"
| "put_mask xs _ _ = xs"

section \<open>Longitude normalisation\<close>

text \<open>
  \<^verbatim>\<open>
  def wrap_lon360(lon):
      lon = np.atleast_1d(lon).copy()
      positive = lon > 0
      lon = lon % 360
      lon[np.logical_and(lon == 0, positive)] = 360
      return lon
  \<close>
\<close>

definition wrap_lon360 :: "real list \<Rightarrow> real list" where
  "wrap_lon360 lon =
     (let positive = map (\<lambda>x. x > 0) lon;
          lon1 = map (\<lambda>x. pymod x 360) lon
      in fill_mask lon1 (map2 (\<and>) (map (\<lambda>x. x = 0) lon1) positive) 360)"

text \<open>
  \<^verbatim>\<open>
  def wrap_lon180(lon):
      lon = np.atleast_1d(lon).copy()
      angles = np.logical_or((lon < -180), (180 < lon))
      lon[angles] = wrap_lon360(lon[angles] + 180) - 180
      return lon
  \<close>
\<close>

definition wrap_lon180 :: "real list \<Rightarrow> real list" where
  "wrap_lon180 lon =
     (let angles = map (\<lambda>x. x < -180 \<or> 180 < x) lon
      in put_mask lon angles
           (map (\<lambda>x. x - 180) (wrap_lon360 (map (\<lambda>x. x + 180) (select_mask lon angles)))))"

text \<open>What the two helpers do to one element.\<close>

definition wrap360_elem :: "real \<Rightarrow> real" where
  "wrap360_elem x = (if pymod x 360 = 0 \<and> x > 0 then 360 else pymod x 360)"

definition wrap180_elem :: "real \<Rightarrow> real" where
  "wrap180_elem x = (if x < -180 \<or> 180 < x then wrap360_elem (x + 180) - 180 else x)"

section \<open>Arrays in a store\<close>

text \<open>
  Whether a helper touches its argument depends on which numpy operations allocate and
  which write in place, so for that question the float arrays live in a store: addresses
  are handed out in increasing order, \<^verbatim>\<open>.copy()\<close>, arithmetic and boolean
  indexing allocate, and \<^verbatim>\<open>a[mask] = v\<close> overwrites the array at its address.
  Boolean masks are never shared with the caller and stay values.
\<close>

record heap =
  arrays :: "nat \<Rightarrow> real list option"
  next_addr :: nat

definition contents :: "heap \<Rightarrow> nat \<Rightarrow> real list" where
  "contents h a = (case arrays h a of Some xs \<Rightarrow> xs | None \<Rightarrow> [])"

definition alloc :: "heap \<Rightarrow> real list \<Rightarrow> nat \<times> heap" where
  "alloc h xs =
     (next_addr h, h\<lparr>arrays := (arrays h)(next_addr h \<mapsto> xs), next_addr := Suc (next_addr h)\<rparr>)"

definition overwrite :: "heap \<Rightarrow> nat \<Rightarrow> real list \<Rightarrow> heap" where
  "overwrite h a xs = h\<lparr>arrays := (arrays h)(a \<mapsto> xs)\<rparr>"

definition wrap_lon360_heap :: "heap \<Rightarrow> nat \<Rightarrow> nat \<times> heap" where
  "wrap_lon360_heap h arg =
     (let (lon, h1) = alloc h (contents h arg);
          positive = map (\<lambda>x. x > 0) (contents h1 lon);
          (lon1, h2) = alloc h1 (map (\<lambda>x. pymod x 360) (contents h1 lon));
          h3 = overwrite h2 lon1
                 (fill_mask (contents h2 lon1)
                    (map2 (\<and>) (map (\<lambda>x. x = 0) (contents h2 lon1)) positive) 360)
      in (lon1, h3))"

definition wrap_lon180_heap :: "heap \<Rightarrow> nat \<Rightarrow> nat \<times> heap" where
  "wrap_lon180_heap h arg =
     (let (lon, h1) = alloc h (contents h arg);
          angles = map (\<lambda>x. x < -180 \<or> 180 < x) (contents h1 lon);
          (sel, h2) = alloc h1 (select_mask (contents h1 lon) angles);
          (shifted, h3) = alloc h2 (map (\<lambda>x. x + 180) (contents h2 sel));
          (wrapped, h4) = wrap_lon360_heap h3 shifted;
          (back, h5) = alloc h4 (map (\<lambda>x. x - 180) (contents h4 wrapped));
          h6 = overwrite h5 lon (put_mask (contents h5 lon) angles (contents h5 back))
      in (lon, h6))"

section \<open>The model grid and its spatial index\<close>

text \<open>
  A coordinate array is its shape and its elements in row-major order. Of an iris cube
  the code reads the number of dimensions, the X and Y coordinates and time series
  \<^verbatim>\<open>cube[(slice(None),) + idx]\<close>; the slicing belongs to iris, so it is a
  field of the cube: \<open>None\<close> where iris raises, otherwise the values of the series,
  \<open>None\<close> standing for a masked or non-finite value.
\<close>

record ndarray =
  shape :: "nat list"
  ravel :: "real list"

definition ndim :: "ndarray \<Rightarrow> nat" where
  "ndim a = length (shape a)"

type_synonym series = "real option list"

record cube =
  cube_ndim :: nat
  coord_X :: ndarray
  coord_Y :: ndarray
  getitem :: "nat \<times> nat \<Rightarrow> series option"

datatype error = ValueError string | IndexError string

text \<open>
  \<^verbatim>\<open>np.meshgrid(lon, lat)\<close> on 1-D arrays: both results have shape
  \<open>(len(lat), len(lon))\<close>; the first repeats \<open>lon\<close> in every row, the second holds
  one latitude per row.
\<close>

definition meshgrid :: "ndarray \<Rightarrow> ndarray \<Rightarrow> ndarray \<times> ndarray" where
  "meshgrid x y =
     (let nx = length (ravel x); ny = length (ravel y)
      in (\<lparr>shape = [ny, nx], ravel = concat (replicate ny (ravel x))\<rparr>,
          \<lparr>shape = [ny, nx], ravel = concat (map (replicate nx) (ravel y))\<rparr>))"

text \<open>
  The index is scipy's \<^verbatim>\<open>KDTree\<close>, modelled by the list of points it was
  built from; the position of a point in the list is its flat cell identifier.

  \<^verbatim>\<open>
  def make_tree(cube):
      lon = cube.coord(axis='X').points
      lat = cube.coord(axis='Y').points
      lon = wrap_lon180(lon)
      # Structured models with 1D lon, lat.
      if (lon.ndim == 1) and (lat.ndim == 1) and (cube.ndim == 3):
          lon, lat = np.meshgrid(lon, lat)
      # Unstructure are already paired!
      tree = KDTree(zip(lon.ravel(), lat.ravel()))
      return tree, lon, lat
  \<close>
\<close>

type_synonym kdtree = "(real \<times> real) list"

definition make_tree :: "cube \<Rightarrow> kdtree \<times> ndarray \<times> ndarray" where
  "make_tree c =
     (let lon = coord_X c;
          lat = coord_Y c;
          lon = lon\<lparr>ravel := wrap_lon180 (ravel lon)\<rparr>;
          (lon, lat) = (if ndim lon = 1 \<and> ndim lat = 1 \<and> cube_ndim c = 3
                        then meshgrid lon lat else (lon, lat));
          tree = zip (ravel lon) (ravel lat)
      in (tree, lon, lat))"

section \<open>Nearest-neighbour query\<close>

text \<open>
  \<^verbatim>\<open>tree.query(x, k)\<close> for one query point: the \<open>k\<close> nearest points by Euclidean
  distance, nearest first, as an array of distances and an array of positions. When the
  tree holds fewer than \<open>k\<close> points the missing neighbours are reported with an
  infinite distance and the position \<open>tree.n\<close>; \<open>k < 1\<close> is refused.
\<close>

datatype fdist = Finite real | Infinity

fun fdist_le :: "fdist \<Rightarrow> real \<Rightarrow> bool" where
  "fdist_le (Finite d) m = (d \<le> m)"
| "fdist_le Infinity m = False"

fun fdist_leq :: "fdist \<Rightarrow> fdist \<Rightarrow> bool" where
  "fdist_leq (Finite a) (Finite b) = (a \<le> b)"
| "fdist_leq _ Infinity = True"
| "fdist_leq Infinity (Finite b) = False"

definition euclid :: "real \<times> real \<Rightarrow> real \<times> real \<Rightarrow> real" where
  "euclid p q = sqrt ((fst p - fst q)\<^sup>2 + (snd p - snd q)\<^sup>2)"

definition ranked :: "kdtree \<Rightarrow> real \<times> real \<Rightarrow> (real \<times> nat) list" where
  "ranked tree x = sort_key fst (zip (map (euclid x) tree) [0..<length tree])"

definition neighbours :: "kdtree \<Rightarrow> real \<times> real \<Rightarrow> nat \<Rightarrow> (fdist \<times> nat) list" where
  "neighbours tree x k =
     map (\<lambda>(d, n). (Finite d, n)) (take k (ranked tree x))
     @ replicate (k - length tree) (Infinity, length tree)"

definition query :: "kdtree \<Rightarrow> real \<times> real \<Rightarrow> nat \<Rightarrow> error + (fdist list \<times> nat list)" where
  "query tree x k =
     (if k < 1 then Inl (ValueError ''Requested 0 nearest neighbors'')
      else Inr (map fst (neighbours tree x k), map snd (neighbours tree x k)))"

section \<open>Cell coordinates\<close>

text \<open>
  \<^verbatim>\<open>np.unravel_index(indices, shape)\<close>: one array of coordinates per dimension
  of \<open>shape\<close>, row-major; an index outside the shape is refused.
\<close>

fun unravel :: "nat \<Rightarrow> nat list \<Rightarrow> nat list" where
  "unravel n [] = []"
| "unravel n (d # ds) = (n div prod_list ds) # unravel (n mod prod_list ds) ds"

definition unravel_index :: "nat list \<Rightarrow> nat list \<Rightarrow> error + nat list list" where
  "unravel_index indices shp =
     (if list_ex (\<lambda>n. prod_list shp \<le> n) indices
      then Inl (ValueError ''invalid entry in index array'')
      else Inr (map (\<lambda>d. map (\<lambda>n. unravel n shp ! d) indices) [0..<length shp]))"

text \<open>
  \<^verbatim>\<open>
  # Unstructured model.
  if (cube.coord(axis='X').ndim == 1) and (cube.ndim == 2):
      i = j = indices
  # Structured model.
  else:
      i, j = np.unravel_index(indices, cube.coord(axis='X').shape)
  \<close>
  Unpacking into \<open>i, j\<close> needs exactly two coordinate arrays.
\<close>

definition cell_indices :: "cube \<Rightarrow> nat list \<Rightarrow> error + (nat list \<times> nat list)" where
  "cell_indices c indices =
     (if ndim (coord_X c) = 1 \<and> cube_ndim c = 2 then Inr (indices, indices)
      else (case unravel_index indices (shape (coord_X c)) of
              Inl e \<Rightarrow> Inl e
            | Inr [i, j] \<Rightarrow> Inr (i, j)
            | Inr _ \<Rightarrow> Inl (ValueError ''wrong number of values to unpack'')))"

section \<open>Variance test and search loop\<close>

text \<open>
  \<^verbatim>\<open>ma.masked_invalid(series.data).filled(fill_value=0)\<close> and numpy's population
  standard deviation. The standard deviation of an empty array is NaN, and a
  comparison with NaN is false.
\<close>

definition filled :: "series \<Rightarrow> real \<Rightarrow> real list" where
  "filled s fill_value = map (\<lambda>v. case v of None \<Rightarrow> fill_value | Some x \<Rightarrow> x) s"

definition mean :: "real list \<Rightarrow> real" where
  "mean xs = sum_list xs / real (length xs)"

definition std :: "real list \<Rightarrow> real" where
  "std xs = sqrt (mean (map (\<lambda>x. (x - mean xs)\<^sup>2) xs))"

definition std_ge :: "real list \<Rightarrow> real \<Rightarrow> bool" where
  "std_ge arr min_var = (arr \<noteq> [] \<and> std arr \<ge> min_var)"

text \<open>
  \<^verbatim>\<open>
  series, dist, idx = None, None, None
  for dist, idx in zip(distances, zip(i, j)):
      series = cube[(slice(None),)+idx]
      # Is it possible to get NaNs here?
      arr = ma.masked_invalid(series.data).filled(fill_value=0)
      if arr.std() >= min_var:
          break
  return series, dist, idx
  \<close>
  The loop carries the three variables \<open>(series, dist, idx)\<close> as \<open>last_seen\<close>.
\<close>

type_synonym found = "series option \<times> fdist option \<times> (nat \<times> nat) option"

fun water_loop :: "cube \<Rightarrow> real \<Rightarrow> (fdist \<times> nat \<times> nat) list \<Rightarrow> found \<Rightarrow> error + found" where
  "water_loop c min_var [] last_seen = Inr last_seen"
| "water_loop c min_var ((d, idx) # rest) last_seen =
     (case getitem c idx of
        None \<Rightarrow> Inl (IndexError ''cube slice'')
      | Some series \<Rightarrow>
          if std_ge (filled series 0) min_var then Inr (Some series, Some d, Some idx)
          else water_loop c min_var rest (Some series, Some d, Some idx))"

text \<open>
  The part of \<^verbatim>\<open>get_nearest_water\<close> before the loop, for one query point
  \<open>(xi, yi)\<close>:
  \<^verbatim>\<open>
  distances, indices = tree.query(np.array([xi, yi]).T, k=k)
  if indices.size == 0:
      raise ValueError("No data found.")
  # Get data up to specified distance.
  mask = distances <= max_dist
  if mask is None:
      raise ValueError("No data found for (%s,%s) using max_dist=%s." %
                       (xi, yi, max_dist))
  distances, indices = distances[mask], indices[mask]
  \<close>
  followed by the computation of \<open>i, j\<close>. The comparison yields an array, which is the
  \<open>Some\<close> below. \<open>max_dist\<close> is a finite number.
\<close>

definition candidates ::
  "cube \<Rightarrow> kdtree \<Rightarrow> real \<Rightarrow> real \<Rightarrow> nat \<Rightarrow> real \<Rightarrow> error + (fdist \<times> nat \<times> nat) list" where
  "candidates c tree xi yi k max_dist =
     (case query tree (xi, yi) k of
        Inl e \<Rightarrow> Inl e
      | Inr (distances, indices) \<Rightarrow>
          if length indices = 0 then Inl (ValueError ''No data found.'')
          else
            let mask = Some (map (\<lambda>d. fdist_le d max_dist) distances) in
            (case mask of
               None \<Rightarrow> Inl (ValueError ''No data found for (xi,yi) using max_dist.'')
             | Some m \<Rightarrow>
                 let distances = select_mask distances m;
                     indices = select_mask indices m
                 in (case cell_indices c indices of
                       Inl e \<Rightarrow> Inl e
                     | Inr (i, j) \<Rightarrow> Inr (zip distances (zip i j)))))"

definition get_nearest_water ::
  "cube \<Rightarrow> kdtree \<Rightarrow> real \<Rightarrow> real \<Rightarrow> nat \<Rightarrow> real \<Rightarrow> real \<Rightarrow> error + found" where
  "get_nearest_water c tree xi yi k max_dist min_var =
     (case candidates c tree xi yi k max_dist of
        Inl e \<Rightarrow> Inl e
      | Inr cands \<Rightarrow> water_loop c min_var cands (None, None, None))"

section \<open>The candidates, one at a time\<close>

text \<open>
  Two views of what \<^verbatim>\<open>get_nearest_water\<close> computes array-wise, used to state
  its properties: the neighbours that pass the distance mask, and the pair the source
  builds by \<^verbatim>\<open>zip(i, j)\<close> for one flat cell identifier.
\<close>

definition survivors :: "kdtree \<Rightarrow> real \<times> real \<Rightarrow> nat \<Rightarrow> real \<Rightarrow> (real \<times> nat) list" where
  "survivors tree x k max_dist = filter (\<lambda>(d, n). d \<le> max_dist) (take k (ranked tree x))"

definition cell_of :: "cube \<Rightarrow> nat \<Rightarrow> nat \<times> nat" where
  "cell_of c n =
     (if ndim (coord_X c) = 1 \<and> cube_ndim c = 2 then (n, n)
      else (unravel n (shape (coord_X c)) ! 0, unravel n (shape (coord_X c)) ! 1))"

section \<open>Example inputs\<close>

text \<open>A store holding one array, the grid longitudes \<open>[359, 1, 181]\<close>, at address 0.\<close>

definition heap0 :: heap where
  "heap0 = \<lparr>arrays = [0 \<mapsto> [359, 1, 181]], next_addr = 1\<rparr>"

text \<open>A structured grid with three longitudes and two latitudes on 1-D axes.\<close>

definition grid23 :: cube where
  "grid23 = \<lparr>cube_ndim = 3,
             coord_X = \<lparr>shape = [3], ravel = [359, 1, 181]\<rparr>,
             coord_Y = \<lparr>shape = [2], ravel = [10, 20]\<rparr>,
             getitem = (\<lambda>idx. Some [Some 0, Some 1])\<rparr>"

text \<open>
  The same axes under a cube of four dimensions (time, depth, latitude, longitude).
\<close>

definition grid23_depth :: cube where
  "grid23_depth = \<lparr>cube_ndim = 4,
             coord_X = \<lparr>shape = [3], ravel = [359, 1, 181]\<rparr>,
             coord_Y = \<lparr>shape = [2], ravel = [10, 20]\<rparr>,
             getitem = (\<lambda>idx. Some [Some 0, Some 1])\<rparr>"

text \<open>
  A structured grid with 2-D coordinates, one row of three cells at longitudes 0, 1, 2.
  The series of the first cell is flat, the second holds an invalid value and a zero,
  the third varies.
\<close>

definition row3 :: cube where
  "row3 = \<lparr>cube_ndim = 3,
           coord_X = \<lparr>shape = [1, 3], ravel = [0, 1, 2]\<rparr>,
           coord_Y = \<lparr>shape = [1, 3], ravel = [0, 0, 0]\<rparr>,
           getitem = (\<lambda>idx. if idx = (0, 0) then Some [Some 5, Some 5]
                            else if idx = (0, 1) then Some [None, Some 0]
                            else if idx = (0, 2) then Some [Some 1, Some (- 1)]
                            else None)\<rparr>"

text \<open>A structured grid with 1-D axes: two longitudes, one latitude.\<close>

definition axes21 :: cube where
  "axes21 = \<lparr>cube_ndim = 3,
             coord_X = \<lparr>shape = [2], ravel = [0, 1]\<rparr>,
             coord_Y = \<lparr>shape = [1], ravel = [0]\<rparr>,
             getitem = (\<lambda>idx. if idx = (0, 0) \<or> idx = (0, 1) then Some [Some 1, Some (- 1)]
                              else None)\<rparr>"

section \<open>Facts about the array primitives\<close>

lemma pymod_bounds: "0 < m \<Longrightarrow> 0 \<le> pymod x m \<and> pymod x m < m"
  using floor_divide_lower [of m x] floor_divide_upper [of m x]
  by (simp add: pymod_def algebra_simps)

lemma fill_mask_map:
  "fill_mask (map f xs) (map2 (\<and>) (map (\<lambda>x. f x = z) xs) (map p xs)) c
     = map (\<lambda>x. if f x = z \<and> p x then c else f x) xs"
  by (induction xs) simp_all

lemma wrap_lon360_map: "wrap_lon360 lon = map wrap360_elem lon"
proof -
  have "fill_mask (map (\<lambda>x. pymod x 360) lon)
          (map2 (\<and>) (map (\<lambda>x. pymod x 360 = 0) lon) (map (\<lambda>x. x > 0) lon)) 360
        = map (\<lambda>x. if pymod x 360 = 0 \<and> x > 0 then 360 else pymod x 360) lon"
    by (rule fill_mask_map)
  then show ?thesis
    by (simp add: wrap_lon360_def Let_def wrap360_elem_def [abs_def] comp_def)
qed

lemma put_mask_map:
  "put_mask xs (map p xs) (map f (select_mask xs (map p xs)))
     = map (\<lambda>x. if p x then f x else x) xs"
  by (induction xs) simp_all

lemma wrap_lon180_map: "wrap_lon180 lon = map wrap180_elem lon"
proof -
  let ?p = "\<lambda>x::real. x < -180 \<or> 180 < x"
  let ?f = "\<lambda>x. wrap360_elem (x + 180) - 180"
  have "map (\<lambda>x. x - 180) (wrap_lon360 (map (\<lambda>x. x + 180) (select_mask lon (map ?p lon))))
        = map ?f (select_mask lon (map ?p lon))"
    by (simp add: wrap_lon360_map comp_def)
  then have "wrap_lon180 lon = put_mask lon (map ?p lon) (map ?f (select_mask lon (map ?p lon)))"
    by (simp add: wrap_lon180_def Let_def)
  also have "\<dots> = map (\<lambda>x. if ?p x then ?f x else x) lon"
    by (rule put_mask_map)
  finally show ?thesis
    by (simp add: wrap180_elem_def [abs_def])
qed

lemma wrap360_elem_bounds: "0 \<le> wrap360_elem x \<and> wrap360_elem x \<le> 360"
  using pymod_bounds [of 360 x] by (simp add: wrap360_elem_def)

lemma wrap180_elem_bounds: "- 180 \<le> wrap180_elem x \<and> wrap180_elem x \<le> 180"
  using wrap360_elem_bounds [of "x + 180"] by (auto simp: wrap180_elem_def)

lemma wrap180_elem_id: "- 180 \<le> x \<Longrightarrow> x \<le> 180 \<Longrightarrow> wrap180_elem x = x"
  by (simp add: wrap180_elem_def)

lemma wrap180_elem_idem: "wrap180_elem (wrap180_elem x) = wrap180_elem x"
  using wrap180_elem_bounds [of x] by (simp add: wrap180_elem_id)

lemma wrap_lon180_length: "length (wrap_lon180 lon) = length lon"
  by (simp add: wrap_lon180_map)

lemma wrap_lon180_bounds: "x \<in> set (wrap_lon180 lon) \<Longrightarrow> - 180 \<le> x \<and> x \<le> 180"
  using wrap180_elem_bounds by (auto simp: wrap_lon180_map)

lemma wrap_lon180_example: "wrap_lon180 [359, 1, 181] = [- 1, 1, - 179]"
  by (simp add: wrap_lon180_def wrap_lon360_def pymod_def)

section \<open>Facts about the store\<close>

lemma alloc_fst: "fst (alloc h xs) = next_addr h"
  by (simp add: alloc_def)

lemma alloc_next: "next_addr (snd (alloc h xs)) = Suc (next_addr h)"
  by (simp add: alloc_def)

lemma alloc_arrays_old: "b \<noteq> next_addr h \<Longrightarrow> arrays (snd (alloc h xs)) b = arrays h b"
  by (simp add: alloc_def)

lemma alloc_contents_new: "contents (snd (alloc h xs)) (next_addr h) = xs"
  by (simp add: alloc_def contents_def)

lemma alloc_contents_old: "b \<noteq> next_addr h \<Longrightarrow> contents (snd (alloc h xs)) b = contents h b"
  by (simp add: alloc_def contents_def)

lemma overwrite_next: "next_addr (overwrite h a xs) = next_addr h"
  by (simp add: overwrite_def)

lemma overwrite_arrays_other: "b \<noteq> a \<Longrightarrow> arrays (overwrite h a xs) b = arrays h b"
  by (simp add: overwrite_def)

lemma overwrite_contents_same: "contents (overwrite h a xs) a = xs"
  by (simp add: overwrite_def contents_def)

lemma overwrite_contents_other: "b \<noteq> a \<Longrightarrow> contents (overwrite h a xs) b = contents h b"
  by (simp add: overwrite_def contents_def)

lemmas heap_simps = alloc_fst alloc_next alloc_arrays_old alloc_contents_new alloc_contents_old
  overwrite_next overwrite_arrays_other overwrite_contents_same overwrite_contents_other

lemma wrap_lon360_heap_fst: "fst (wrap_lon360_heap h a) = Suc (next_addr h)"
  by (simp add: wrap_lon360_heap_def Let_def split_beta heap_simps)

lemma wrap_lon360_heap_next: "next_addr (snd (wrap_lon360_heap h a)) = Suc (Suc (next_addr h))"
  by (simp add: wrap_lon360_heap_def Let_def split_beta heap_simps)

lemma wrap_lon360_heap_frame:
  "b < next_addr h \<Longrightarrow> arrays (snd (wrap_lon360_heap h a)) b = arrays h b"
  by (simp add: wrap_lon360_heap_def Let_def split_beta heap_simps)

lemma wrap_lon360_heap_contents_old:
  "b < next_addr h \<Longrightarrow> contents (snd (wrap_lon360_heap h a)) b = contents h b"
  by (simp add: contents_def wrap_lon360_heap_frame)

text \<open>The store version computes what the value version does.\<close>

lemma wrap_lon360_heap_result:
  "r = Suc (next_addr h) \<Longrightarrow>
   contents (snd (wrap_lon360_heap h a)) r = wrap_lon360 (contents h a)"
  by (simp add: wrap_lon360_heap_def wrap_lon360_def Let_def split_beta heap_simps)

lemma wrap_lon180_heap_fst: "fst (wrap_lon180_heap h a) = next_addr h"
  by (simp add: wrap_lon180_heap_def Let_def split_beta heap_simps)

lemma wrap_lon180_heap_frame:
  "b < next_addr h \<Longrightarrow> arrays (snd (wrap_lon180_heap h a)) b = arrays h b"
  by (simp add: wrap_lon180_heap_def Let_def split_beta heap_simps
      wrap_lon360_heap_frame wrap_lon360_heap_next wrap_lon360_heap_fst)

lemma wrap_lon180_heap_result:
  "contents (snd (wrap_lon180_heap h a)) (next_addr h) = wrap_lon180 (contents h a)"
  by (simp add: wrap_lon180_heap_def wrap_lon180_def Let_def split_beta heap_simps
      wrap_lon360_heap_contents_old wrap_lon360_heap_next wrap_lon360_heap_fst
      wrap_lon360_heap_result)

section \<open>Facts about the index\<close>

lemma make_tree_lons:
  "p \<in> set (fst (make_tree c)) \<Longrightarrow> fst p \<in> set (wrap_lon180 (ravel (coord_X c)))"
  by (cases p) (auto simp: make_tree_def meshgrid_def Let_def split: if_splits dest!: set_zip_leftD)

lemma zip_replicate_right: "zip xs (replicate (length xs) y) = map (\<lambda>x. (x, y)) xs"
  by (induction xs) simp_all

lemma zip_mesh:
  "zip (concat (replicate (length ys) xs)) (concat (map (replicate (length xs)) ys))
     = concat (map (\<lambda>y. map (\<lambda>x. (x, y)) xs) ys)"
  by (induction ys) (simp_all add: zip_replicate_right)

lemma length_mesh: "length (concat (map (\<lambda>y. map (\<lambda>x. (x, y)) xs) ys)) = length xs * length ys"
  by (induction ys) simp_all

lemma make_tree_mesh:
  assumes "ndim (coord_X c) = 1" and "ndim (coord_Y c) = 1" and "cube_ndim c = 3"
  shows "make_tree c
     = (concat (map (\<lambda>y. map (\<lambda>x. (x, y)) (wrap_lon180 (ravel (coord_X c)))) (ravel (coord_Y c))),
        \<lparr>shape = [length (ravel (coord_Y c)), length (wrap_lon180 (ravel (coord_X c)))],
         ravel = concat (replicate (length (ravel (coord_Y c))) (wrap_lon180 (ravel (coord_X c))))\<rparr>,
        \<lparr>shape = [length (ravel (coord_Y c)), length (wrap_lon180 (ravel (coord_X c)))],
         ravel = concat (map (replicate (length (wrap_lon180 (ravel (coord_X c))))) (ravel (coord_Y c)))\<rparr>)"
  using assms by (simp add: make_tree_def meshgrid_def Let_def ndim_def zip_mesh)

lemma make_tree_zipped:
  assumes "\<not> (ndim (coord_X c) = 1 \<and> ndim (coord_Y c) = 1 \<and> cube_ndim c = 3)"
  shows "fst (make_tree c) = zip (wrap_lon180 (ravel (coord_X c))) (ravel (coord_Y c))"
  using assms by (auto simp: make_tree_def Let_def ndim_def)

section \<open>Longitude normalisation: the claims\<close>

text \<open>
  C9. Normalising the grid longitudes \<open>[359, 1, 181]\<close> with \<^verbatim>\<open>wrap_lon180\<close>
  yields exactly \<open>[-1, 1, -179]\<close>.
\<close>

theorem wrap_lon180_grid_example: "wrap_lon180 [359, 1, 181] = [- 1, 1, - 179]"
  by (simp add: wrap_lon180_def wrap_lon360_def pymod_def)

text \<open>
  C6. \<^verbatim>\<open>wrap_lon180\<close> is idempotent: applying it twice gives what applying it
  once gives; and longitudes that already lie in \<open>[-180, 180)\<close> are returned unchanged.
\<close>

theorem wrap_lon180_idempotent:
  "wrap_lon180 (wrap_lon180 lon) = wrap_lon180 lon
   \<and> ((\<forall>x \<in> set lon. - 180 \<le> x \<and> x < 180) \<longrightarrow> wrap_lon180 lon = lon)"
proof
  show "wrap_lon180 (wrap_lon180 lon) = wrap_lon180 lon"
    by (simp add: wrap_lon180_map wrap180_elem_idem)
  show "(\<forall>x \<in> set lon. - 180 \<le> x \<and> x < 180) \<longrightarrow> wrap_lon180 lon = lon"
    by (auto simp: wrap_lon180_map wrap180_elem_id intro!: map_idI)
qed

theorem wrap_lon180_idempotent_witness:
  "wrap_lon180 [- 180, 0, 179.5] = [- 180, 0, 179.5]
   \<and> wrap_lon180 (wrap_lon180 [359, 1, 181]) = wrap_lon180 [359, 1, 181]"
  using wrap_lon180_idempotent [of "[- 180, 0, 179.5]"] wrap_lon180_idempotent [of "[359, 1, 181]"]
  by simp

text \<open>
  C5, as the spec states it: every longitude that \<^verbatim>\<open>wrap_lon180\<close> returns lies in
  the half-open interval \<open>[-180, 180)\<close>. The longitude 180 is not wrapped (the test is
  \<open>180 < lon\<close>), so it is returned as it is.
\<close>

theorem wrap_lon180_half_open_counterexample:
  "\<not> (- 180 \<le> wrap_lon180 [180] ! 0 \<and> wrap_lon180 [180] ! 0 < 180)"
  by (simp add: wrap_lon180_def)

text \<open>
  C5, amended: every longitude that \<^verbatim>\<open>wrap_lon180\<close> returns lies in the closed
  interval \<open>[-180, 180]\<close>, and so does the longitude of every point stored in the index
  that \<^verbatim>\<open>make_tree\<close> builds.
\<close>

theorem wrap_lon180_closed_range:
  "(\<forall>x \<in> set (wrap_lon180 lon). - 180 \<le> x \<and> x \<le> 180)
   \<and> (\<forall>p \<in> set (fst (make_tree c)). - 180 \<le> fst p \<and> fst p \<le> 180)"
  using wrap_lon180_bounds make_tree_lons by blast

theorem wrap_lon180_closed_range_witness:
  "wrap_lon180 [359, 180, 540, - 540] = [- 1, 180, 180, - 180]
   \<and> - 180 \<le> wrap_lon180 [359, 180, 540, - 540] ! 2
   \<and> wrap_lon180 [359, 180, 540, - 540] ! 2 \<le> 180
   \<and> - 180 \<le> fst (fst (make_tree grid23) ! 2) \<and> fst (fst (make_tree grid23) ! 2) \<le> 180"
proof -
  have w: "wrap_lon180 [359, 180, 540, - 540] = [- 1, 180, 180, - 180]"
    by (simp add: wrap_lon180_def wrap_lon360_def pymod_def)
  have t: "fst (make_tree grid23)
             = [(- 1, 10), (1, 10), (- 179, 10), (- 1, 20), (1, 20), (- 179, 20)]"
    by (simp add: make_tree_def meshgrid_def grid23_def ndim_def wrap_lon180_example Let_def
        numeral_2_eq_2)
  show ?thesis
    using wrap_lon180_closed_range [of "[359, 180, 540, - 540]" grid23] w t by simp
qed

text \<open>
  C10. \<^verbatim>\<open>wrap_lon180\<close> and \<^verbatim>\<open>wrap_lon360\<close> leave the caller's array as it
  was: for an argument that exists in the store, the array at its address is the same
  after the call, the result is an array at another address, and that array holds the
  normalised longitudes.
\<close>

theorem wrap_lon_argument_unchanged:
  assumes "arg < next_addr h"
  shows "arrays (snd (wrap_lon180_heap h arg)) arg = arrays h arg
       \<and> fst (wrap_lon180_heap h arg) \<noteq> arg
       \<and> contents (snd (wrap_lon180_heap h arg)) (fst (wrap_lon180_heap h arg))
           = wrap_lon180 (contents h arg)
       \<and> arrays (snd (wrap_lon360_heap h arg)) arg = arrays h arg
       \<and> fst (wrap_lon360_heap h arg) \<noteq> arg
       \<and> contents (snd (wrap_lon360_heap h arg)) (fst (wrap_lon360_heap h arg))
           = wrap_lon360 (contents h arg)"
  using assms
  by (simp add: wrap_lon180_heap_frame wrap_lon180_heap_fst wrap_lon180_heap_result
      wrap_lon360_heap_frame wrap_lon360_heap_fst wrap_lon360_heap_result)

theorem wrap_lon_argument_unchanged_witness:
  "(0::nat) < next_addr heap0
   \<and> arrays (snd (wrap_lon180_heap heap0 0)) 0 = Some [359, 1, 181]
   \<and> fst (wrap_lon180_heap heap0 0) \<noteq> 0
   \<and> contents (snd (wrap_lon180_heap heap0 0)) (fst (wrap_lon180_heap heap0 0)) = [- 1, 1, - 179]
   \<and> arrays (snd (wrap_lon360_heap heap0 0)) 0 = Some [359, 1, 181]
   \<and> fst (wrap_lon360_heap heap0 0) \<noteq> 0"
proof -
  have h: "(0::nat) < next_addr heap0" by (simp add: heap0_def)
  have c: "contents heap0 0 = [359, 1, 181]" "arrays heap0 0 = Some [359, 1, 181]"
    by (simp_all add: heap0_def contents_def)
  show ?thesis
    using h wrap_lon_argument_unchanged [OF h] wrap_lon180_example c by simp
qed

section \<open>The index: the claims\<close>

text \<open>
  C4, at a concrete input. The claim is stated for every structured grid with 1-D
  longitude and latitude coordinates. \<^verbatim>\<open>make_tree\<close> expands the axes to a mesh only
  under a cube of exactly three dimensions. The grid \<open>grid23_depth\<close> has the 1-D axes
  of \<open>grid23\<close>, three longitudes and two latitudes, under a cube of four dimensions:
  its axes are zipped element by element and the index holds two points, not six.
\<close>

theorem make_tree_rank4_counterexample:
  "ndim (coord_X grid23_depth) = 1 \<and> ndim (coord_Y grid23_depth) = 1
   \<and> fst (make_tree grid23_depth) = [(- 1, 10), (1, 20)]
   \<and> \<not> (length (fst (make_tree grid23_depth))
           = length (ravel (coord_X grid23_depth)) * length (ravel (coord_Y grid23_depth)))"
proof -
  have t: "fst (make_tree grid23_depth) = [(- 1, 10), (1, 20)]"
    by (simp add: make_tree_def grid23_depth_def ndim_def wrap_lon180_example Let_def)
  show ?thesis unfolding t by (simp add: grid23_depth_def ndim_def)
qed

text \<open>
  C4, amended. For a grid whose longitude and latitude coordinates are 1-D arrays under
  a cube of exactly three dimensions, the index is the list of all pairs of a wrapped
  longitude and a latitude, row by row of the mesh (every longitude paired with every
  latitude), so it holds exactly \<open>len(lon) * len(lat)\<close> points, and the mesh has shape
  \<open>(len(lat), len(lon))\<close>.
\<close>

theorem make_tree_structured_pairs:
  assumes "ndim (coord_X c) = 1" and "ndim (coord_Y c) = 1" and "cube_ndim c = 3"
  shows "fst (make_tree c)
           = concat (map (\<lambda>y. map (\<lambda>x. (x, y)) (wrap_lon180 (ravel (coord_X c)))) (ravel (coord_Y c)))
       \<and> set (fst (make_tree c)) = set (wrap_lon180 (ravel (coord_X c))) \<times> set (ravel (coord_Y c))
       \<and> length (fst (make_tree c)) = length (ravel (coord_X c)) * length (ravel (coord_Y c))
       \<and> shape (fst (snd (make_tree c))) = [length (ravel (coord_Y c)), length (ravel (coord_X c))]"
proof (intro conjI)
  let ?m = "concat (map (\<lambda>y. map (\<lambda>x. (x, y)) (wrap_lon180 (ravel (coord_X c)))) (ravel (coord_Y c)))"
  show t: "fst (make_tree c) = ?m"
    by (simp add: make_tree_mesh [OF assms])
  show "set (fst (make_tree c)) = set (wrap_lon180 (ravel (coord_X c))) \<times> set (ravel (coord_Y c))"
    unfolding t by auto
  show "length (fst (make_tree c)) = length (ravel (coord_X c)) * length (ravel (coord_Y c))"
    unfolding t by (simp add: length_mesh wrap_lon180_length)
  show "shape (fst (snd (make_tree c))) = [length (ravel (coord_Y c)), length (ravel (coord_X c))]"
    by (simp add: make_tree_mesh [OF assms] wrap_lon180_length)
qed

theorem make_tree_structured_pairs_witness:
  "fst (make_tree grid23) = [(- 1, 10), (1, 10), (- 179, 10), (- 1, 20), (1, 20), (- 179, 20)]
   \<and> length (fst (make_tree grid23)) = 6
   \<and> shape (fst (snd (make_tree grid23))) = [2, 3]"
proof -
  have h: "ndim (coord_X grid23) = 1" "ndim (coord_Y grid23) = 1" "cube_ndim grid23 = 3"
    by (simp_all add: grid23_def ndim_def)
  have x: "ravel (coord_X grid23) = [359, 1, 181]" and y: "ravel (coord_Y grid23) = [10, 20]"
    by (simp_all add: grid23_def)
  from make_tree_structured_pairs [OF h] show ?thesis
    unfolding x y by (simp add: wrap_lon180_example)
qed

section \<open>Facts about the query and the candidates\<close>

lemma select_mask_map: "select_mask (map f es) (map p es) = map f (filter p es)"
  by (induction es) simp_all

lemma length_ranked: "length (ranked tree x) = length tree"
  by (simp add: ranked_def)

lemma neighbours_ranked:
  "neighbours tree x k = map (\<lambda>(d, n). (Finite d, n)) (take k (ranked tree x))
     @ replicate (k - length tree) (Infinity, length tree)"
  by (simp add: neighbours_def)

lemma length_neighbours: "length (neighbours tree x k) = k"
  by (simp add: neighbours_ranked length_ranked)

lemma filter_neighbours:
  "filter (\<lambda>e. fdist_le (fst e) m) (neighbours tree x k)
     = map (\<lambda>(d, n). (Finite d, n)) (filter (\<lambda>(d, n). d \<le> m) (take k (ranked tree x)))"
  by (simp add: neighbours_ranked filter_map comp_def split_def)

lemma ranked_sorted: "sorted (map fst (ranked tree x))"
  by (simp add: ranked_def)



lemma map_upt_pair: "map f [0..<n] = [a, b] \<Longrightarrow> n = 2 \<and> a = f 0 \<and> b = f 1"
proof -
  assume h: "map f [0..<n] = [a, b]"
  then have "length (map f [0..<n]) = 2" by simp
  then have n: "n = 2" by simp
  have "[0..<2] = [0, Suc 0]" by (simp add: numeral_2_eq_2)
  with h n show ?thesis by simp
qed




lemma cell_indices_length:
  assumes "cell_indices c ns = Inr (i, j)"
  shows "length i = length ns \<and> length j = length ns"
proof (cases "ndim (coord_X c) = 1 \<and> cube_ndim c = 2")
  case True
  with assms show ?thesis by (auto simp: cell_indices_def)
next
  case False
  with assms obtain ijs where u: "unravel_index ns (shape (coord_X c)) = Inr ijs" and ij: "ijs = [i, j]"
    by (auto simp: cell_indices_def split: sum.splits list.splits)
  from u have "ijs = map (\<lambda>d. map (\<lambda>n. unravel n (shape (coord_X c)) ! d) ns)
                       [0..<length (shape (coord_X c))]"
    by (simp add: unravel_index_def split: if_splits)
  with ij have "map (\<lambda>d. map (\<lambda>n. unravel n (shape (coord_X c)) ! d) ns)
                  [0..<length (shape (coord_X c))] = [i, j]" by simp
  from map_upt_pair [OF this] show ?thesis by auto
qed

lemma candidates_survivors:
  assumes "1 \<le> k"
  shows "candidates c tree xi yi k m =
     (case cell_indices c (map snd (survivors tree (xi, yi) k m)) of
        Inl e \<Rightarrow> Inl e
      | Inr (i, j) \<Rightarrow> Inr (zip (map (\<lambda>(d, n). Finite d) (survivors tree (xi, yi) k m)) (zip i j)))"
proof -
  let ?ns = "neighbours tree (xi, yi) k"
  let ?p = "\<lambda>e. fdist_le (fst e) m"
  have d: "select_mask (map fst ?ns) (map ?p ?ns) = map fst (filter ?p ?ns)"
    by (rule select_mask_map)
  have i: "select_mask (map snd ?ns) (map ?p ?ns) = map snd (filter ?p ?ns)"
    by (rule select_mask_map)
  have f: "filter ?p ?ns = map (\<lambda>(d, n). (Finite d, n)) (survivors tree (xi, yi) k m)"
    by (simp add: filter_neighbours survivors_def)
  have len: "length ?ns \<noteq> 0" using assms by (simp add: length_neighbours)
  show ?thesis
    using assms len
    by (simp add: candidates_def query_def Let_def d i f comp_def split_def
        split: sum.split)
qed


lemma cell_indices_cell_of:
  assumes "cell_indices c ns = Inr (i, j)"
  shows "zip i j = map (cell_of c) ns"
proof (cases "ndim (coord_X c) = 1 \<and> cube_ndim c = 2")
  case True
  with assms show ?thesis by (auto simp: cell_indices_def cell_of_def zip_same_conv_map)
next
  case False
  with assms obtain ijs where u: "unravel_index ns (shape (coord_X c)) = Inr ijs" and ij: "ijs = [i, j]"
    by (auto simp: cell_indices_def split: sum.splits list.splits)
  from u have "ijs = map (\<lambda>d. map (\<lambda>n. unravel n (shape (coord_X c)) ! d) ns)
                       [0..<length (shape (coord_X c))]"
    by (simp add: unravel_index_def split: if_splits)
  with ij have "map (\<lambda>d. map (\<lambda>n. unravel n (shape (coord_X c)) ! d) ns)
                  [0..<length (shape (coord_X c))] = [i, j]" by simp
  from map_upt_pair [OF this] False show ?thesis
    by (auto simp: zip_map_map cell_of_def zip_same_conv_map)
qed

lemma cell_of_2d: "shape (coord_X c) = [r, cl] \<Longrightarrow> cell_of c n = (n div cl, n mod cl)"
  by (simp add: cell_of_def ndim_def)

lemma candidates_Inr:
  assumes "candidates c tree xi yi k m = Inr cands"
  shows "1 \<le> k \<and> cands = map (\<lambda>(d, n). (Finite d, cell_of c n)) (survivors tree (xi, yi) k m)"
proof -
  have k: "1 \<le> k"
    using assms by (cases "k < 1") (simp_all add: candidates_def query_def)
  let ?S = "survivors tree (xi, yi) k m"
  from assms candidates_survivors [OF k, of c tree xi yi m]
  obtain i j where ci: "cell_indices c (map snd ?S) = Inr (i, j)"
    and cs: "cands = zip (map (\<lambda>(d, n). Finite d) ?S) (zip i j)"
    by (auto split: sum.splits)
  from cell_indices_cell_of [OF ci] cs
  have "cands = zip (map (\<lambda>(d, n). Finite d) ?S) (map (cell_of c) (map snd ?S))" by simp
  also have "\<dots> = map (\<lambda>(d, n). (Finite d, cell_of c n)) ?S"
    by (simp add: zip_map_map zip_same_conv_map split_def)
  finally show ?thesis using k by simp
qed


lemma survivors_sorted: "sorted (map fst (survivors tree x k m))"
proof -
  have "sorted (map fst (take k (ranked tree x)))"
    using ranked_sorted [of tree x] by (simp add: take_map [symmetric] sorted_wrt_take)
  then show ?thesis
    unfolding survivors_def by (rule sorted_filter)
qed




lemma candidates_sorted:
  assumes "candidates c tree xi yi k m = Inr cands"
  shows "sorted_wrt fdist_leq (map fst cands)"
proof -
  from candidates_Inr [OF assms]
  have "map fst cands = map Finite (map fst (survivors tree (xi, yi) k m))"
    by (simp add: comp_def split_def)
  moreover have "sorted_wrt fdist_leq (map Finite (map fst (survivors tree (xi, yi) k m)))"
    using survivors_sorted [of tree "(xi, yi)" k m] by (simp add: sorted_wrt_map del: map_map)
  ultimately show ?thesis by simp
qed






section \<open>Facts about the search loop\<close>

lemma water_loop_none_passes:
  assumes "cands \<noteq> []"
    and "\<forall>(d, idx) \<in> set cands. \<exists>s. getitem c idx = Some s \<and> \<not> std_ge (filled s 0) min_var"
  shows "water_loop c min_var cands seen
           = Inr (getitem c (snd (last cands)), Some (fst (last cands)), Some (snd (last cands)))"
  using assms
proof (induction cands arbitrary: seen)
  case Nil
  then show ?case by simp
next
  case (Cons a rest)
  obtain d idx where a: "a = (d, idx)" by (cases a)
  from Cons.prems(2) a obtain s where s: "getitem c idx = Some s" "\<not> std_ge (filled s 0) min_var"
    by auto
  show ?case
  proof (cases "rest = []")
    case True
    with a s show ?thesis by simp
  next
    case False
    with Cons.IH [of "(Some s, Some d, Some idx)"] Cons.prems(2) a s show ?thesis by simp
  qed
qed



lemma sorted_wrt_fdist_last:
  assumes "sorted_wrt fdist_leq ds" and "d \<in> set ds"
  shows "fdist_leq d (last ds)"
proof -
  have refl: "fdist_leq d d" by (cases d) simp_all
  from assms(2) obtain p where p: "p < length ds" "ds ! p = d" by (auto simp: in_set_conv_nth)
  then have ne: "ds \<noteq> []" by auto
  show ?thesis
  proof (cases "p = length ds - 1")
    case True
    with p ne refl show ?thesis by (simp add: last_conv_nth)
  next
    case False
    with p have "p < length ds - 1" by simp
    moreover from ne have "length ds - 1 < length ds" by simp
    ultimately have "fdist_leq (ds ! p) (ds ! (length ds - 1))"
      using assms(1) by (rule sorted_wrt_nth_less [rotated])
    with p ne show ?thesis by (simp add: last_conv_nth)
  qed
qed


lemma water_loop_error:
  "water_loop c min_var cands seen = Inl e \<Longrightarrow> e = IndexError ''cube slice''"
proof (induction cands arbitrary: seen)
  case Nil
  then show ?case by simp
next
  case (Cons a cands)
  obtain d idx where a: "a = (d, idx)" by (cases a)
  with Cons show ?case by (auto split: option.splits if_splits)
qed

lemma candidates_error:
  assumes "candidates c tree xi yi k m = Inl e"
  shows "e \<noteq> ValueError ''No data found for (xi,yi) using max_dist.''"
  using assms
  by (auto simp: candidates_def query_def Let_def cell_indices_def unravel_index_def
      split: sum.splits list.splits prod.splits if_splits)

lemma radius_error_unreachable:
  "get_nearest_water c tree xi yi k m v
     \<noteq> Inl (ValueError ''No data found for (xi,yi) using max_dist.'')"
proof
  assume h: "get_nearest_water c tree xi yi k m v
     = Inl (ValueError ''No data found for (xi,yi) using max_dist.'')"
  show False
  proof (cases "candidates c tree xi yi k m")
    case (Inl e)
    with h candidates_error [OF Inl] show False by (simp add: get_nearest_water_def)
  next
    case (Inr cands)
    with h water_loop_error [of c v cands "(None, None, None)"] show False
      by (simp add: get_nearest_water_def)
  qed
qed

section \<open>The example grids, evaluated\<close>

lemma row3_tree: "fst (make_tree row3) = [(0, 0), (1, 0), (2, 0)]"
  by (simp add: make_tree_def row3_def ndim_def wrap_lon180_def Let_def)

lemma row3_ranked: "ranked [(0, 0), (1, 0), (2, 0)] (0, 0) = [(0, 0), (1, 1), (2, 2)]"
  by (simp add: ranked_def euclid_def upt_rec)

lemma row3_candidates_near:
  "candidates row3 [(0, 0), (1, 0), (2, 0)] 0 0 3 1 = Inr [(Finite 0, (0, 0)), (Finite 1, (0, 1))]"
  by (simp add: candidates_def query_def neighbours_def row3_ranked cell_indices_def
      unravel_index_def row3_def ndim_def Let_def upt_rec)


lemma row3_flat:
  "\<exists>s. getitem row3 (0, 0) = Some s \<and> \<not> std_ge (filled s 0) (1/100)"
  "\<exists>s. getitem row3 (0, 1) = Some s \<and> \<not> std_ge (filled s 0) (1/100)"
  by (simp_all add: row3_def std_ge_def std_def mean_def filled_def)


lemma row3_far_ranked:
  "ranked [(0, 0), (1, 0), (2, 0)] (0, 1) = [(1, 0), (sqrt 2, 1), (sqrt 5, 2)]"
  by (simp add: ranked_def euclid_def upt_rec)

lemma axes21_ranked: "ranked [(0, 0), (1, 0)] (1, 0) = [(0, 1), (1, 0)]"
  by (simp add: ranked_def euclid_def upt_rec)


section \<open>Nearest water point: the claims\<close>

text \<open>
  C1, at a concrete input. The spec has \<^verbatim>\<open>get_nearest_water\<close> fail when the query
  returns candidates and none of them lies within \<open>max_dist\<close>. On the grid \<open>row3\<close>,
  queried at \<open>(0, 1)\<close> with \<open>max_dist = 0\<close>, the three candidates are at distances
  \<open>1\<close>, \<open>sqrt 2\<close> and \<open>sqrt 5\<close>; the function does not fail, it returns
  \<open>(None, None, None)\<close>. The source guards the failure with \<open>mask is None\<close>, which a
  comparison of arrays never yields.
\<close>

theorem get_nearest_water_outside_radius_returns_nothing:
  "get_nearest_water row3 (fst (make_tree row3)) 0 1 3 0 (1/100) = Inr (None, None, None)"
proof -
  have "candidates row3 [(0, 0), (1, 0), (2, 0)] 0 1 3 0 = Inr []"
    by (simp add: candidates_def query_def neighbours_def row3_far_ranked cell_indices_def
        unravel_index_def row3_def ndim_def Let_def upt_rec)
  then show ?thesis by (simp add: get_nearest_water_def row3_tree)
qed


text \<open>
  C2. When the candidates that survive the distance mask are not empty and none of
  them has a zero-filled series whose standard deviation reaches \<open>min_var\<close>, the function
  returns the series, distance and cell coordinate of the last candidate, which is the
  farthest one.
\<close>

theorem get_nearest_water_all_flat_returns_last:
  assumes "candidates c tree xi yi k max_dist = Inr cands"
    and "cands \<noteq> []"
    and "\<forall>(d, idx) \<in> set cands. \<exists>s. getitem c idx = Some s \<and> \<not> std_ge (filled s 0) min_var"
  shows "get_nearest_water c tree xi yi k max_dist min_var
           = Inr (getitem c (snd (last cands)), Some (fst (last cands)), Some (snd (last cands)))
       \<and> (\<forall>(d, idx) \<in> set cands. fdist_leq d (fst (last cands)))"
proof
  show "get_nearest_water c tree xi yi k max_dist min_var
          = Inr (getitem c (snd (last cands)), Some (fst (last cands)), Some (snd (last cands)))"
    using assms by (simp add: get_nearest_water_def water_loop_none_passes)
  have "\<And>d. d \<in> set (map fst cands) \<Longrightarrow> fdist_leq d (last (map fst cands))"
    using candidates_sorted [OF assms(1)] by (rule sorted_wrt_fdist_last)
  with assms(2) show "\<forall>(d, idx) \<in> set cands. fdist_leq d (fst (last cands))"
    by (force simp: last_map)
qed

theorem get_nearest_water_all_flat_returns_last_witness:
  "candidates row3 (fst (make_tree row3)) 0 0 3 1 = Inr [(Finite 0, (0, 0)), (Finite 1, (0, 1))]
   \<and> get_nearest_water row3 (fst (make_tree row3)) 0 0 3 1 (1/100)
       = Inr (Some [None, Some 0], Some (Finite 1), Some (0, 1))"
proof -
  let ?cands = "[(Finite 0, (0::nat, 0::nat)), (Finite 1, (0, 1))]"
  have c: "candidates row3 (fst (make_tree row3)) 0 0 3 1 = Inr ?cands"
    by (simp add: row3_tree row3_candidates_near)
  have ne: "?cands \<noteq> []" by simp
  have flat: "\<forall>(d, idx) \<in> set ?cands.
      \<exists>s. getitem row3 idx = Some s \<and> \<not> std_ge (filled s 0) (1/100)"
    using row3_flat by simp
  have s: "getitem row3 (0, 1) = Some [None, Some 0]" by (simp add: row3_def)
  show ?thesis
    using c get_nearest_water_all_flat_returns_last [OF c ne flat] s by simp
qed





text \<open>
  C7, at a concrete input. The spec has the flat identifier of a structured grid
  un-flattened against the shape of the mesh. On the grid \<open>axes21\<close>, whose axes are 1-D,
  \<^verbatim>\<open>make_tree\<close> builds a mesh of shape \<open>(1, 2)\<close>; queried at \<open>(1, 0)\<close> the
  only survivor is the flat identifier 1, cell \<open>(0, 1)\<close> of the mesh. The source
  un-flattens against the shape of the X coordinate, \<open>(2,)\<close>, gets one coordinate array
  and fails to unpack it into \<open>i, j\<close>.
\<close>

theorem get_nearest_water_axes_grid_fails:
  "shape (fst (snd (make_tree axes21))) = [1, 2]
   \<and> fst (make_tree axes21) = [(0, 0), (1, 0)]
   \<and> get_nearest_water axes21 (fst (make_tree axes21)) 1 0 2 (4/100) (1/100)
       = Inl (ValueError ''wrong number of values to unpack'')"
proof -
  have t: "make_tree axes21
     = ([(0, 0), (1, 0)], \<lparr>shape = [1, 2], ravel = [0, 1]\<rparr>, \<lparr>shape = [1, 2], ravel = [0, 0]\<rparr>)"
    by (simp add: make_tree_def meshgrid_def axes21_def ndim_def wrap_lon180_def Let_def)
  have "candidates axes21 [(0, 0), (1, 0)] 1 0 2 (4/100)
       = Inl (ValueError ''wrong number of values to unpack'')"
    by (simp add: candidates_def query_def neighbours_def axes21_ranked
      cell_indices_def unravel_index_def axes21_def ndim_def Let_def upt_rec)
  then have "get_nearest_water axes21 [(0, 0), (1, 0)] 1 0 2 (4/100) (1/100)
       = Inl (ValueError ''wrong number of values to unpack'')"
    by (simp add: get_nearest_water_def)
  with t show ?thesis by simp
qed



end
